theory Spec2Isabelle
  imports Complex_Main
begin

section \<open>Python values and the operators the service applies to them\<close>

text \<open>
  The service in \<^verbatim>\<open>app.py\<close> handles parsed JSON: the body of an HTTP request, the
  body of a record-store response, and the dictionaries it builds itself. A value is
  \<^verbatim>\<open>None\<close>, a bool, an int, a float, a str, a list or a dict with str keys. A dict is
  an association list read with \<open>map_of\<close>; floats are only passed through and tested
  for zero, so they are rationals here; an element of a \<open>string\<close> stands for one
  character of a Python str.
\<close>

datatype pyval =
    PNone
  | PBool bool
  | PInt int
  | PFloat rat
  | PStr string
  | PList "pyval list"
  | PDict "(string \<times> pyval) list"

text \<open>The exceptions that the Python of \<^verbatim>\<open>app.py\<close> can raise and does not catch.\<close>

datatype exn =
    TypeError
  | KeyError
  | IndexError
  | AttributeError
  | UnboundLocalError
  | BinasciiError

type_synonym bytes = string

text \<open>Truth value of an object, as \<^verbatim>\<open>if x:\<close> and \<^verbatim>\<open>not x\<close> test it.\<close>

fun truthy :: "pyval \<Rightarrow> bool" where
  "truthy PNone = False"
| "truthy (PBool b) = b"
| "truthy (PInt i) = (i \<noteq> 0)"
| "truthy (PFloat r) = (r \<noteq> 0)"
| "truthy (PStr s) = (s \<noteq> [])"
| "truthy (PList xs) = (xs \<noteq> [])"
| "truthy (PDict kvs) = (kvs \<noteq> [])"

fun starts_with :: "string \<Rightarrow> string \<Rightarrow> bool" where
  "starts_with [] s = True"
| "starts_with (p # ps) [] = False"
| "starts_with (p # ps) (c # cs) = (p = c \<and> starts_with ps cs)"

text \<open>\<open>contains p s\<close>: the str \<open>p\<close> occurs in the str \<open>s\<close> (\<^verbatim>\<open>p in s\<close>).\<close>

fun contains :: "string \<Rightarrow> string \<Rightarrow> bool" where
  "contains p [] = (p = [])"
| "contains p (c # cs) = (starts_with p (c # cs) \<or> contains p cs)"

text \<open>
  \<^verbatim>\<open>k in x\<close> for a str \<open>k\<close>: a key of a dict, an element of a list, a substring of a
  str; any other right operand is not iterable.
\<close>

fun py_in :: "string \<Rightarrow> pyval \<Rightarrow> exn + bool" where
  "py_in k (PDict kvs) = Inr (map_of kvs k \<noteq> None)"
| "py_in k (PList xs) = Inr (PStr k \<in> set xs)"
| "py_in k (PStr s) = Inr (contains k s)"
| "py_in k PNone = Inl TypeError"
| "py_in k (PBool b) = Inl TypeError"
| "py_in k (PInt i) = Inl TypeError"
| "py_in k (PFloat r) = Inl TypeError"

text \<open>\<^verbatim>\<open>x[k]\<close> for a str \<open>k\<close>: only a dict can be subscripted by a str.\<close>

fun py_getitem :: "pyval \<Rightarrow> string \<Rightarrow> exn + pyval" where
  "py_getitem (PDict kvs) k = (case map_of kvs k of Some v \<Rightarrow> Inr v | None \<Rightarrow> Inl KeyError)"
| "py_getitem PNone k = Inl TypeError"
| "py_getitem (PBool b) k = Inl TypeError"
| "py_getitem (PInt i) k = Inl TypeError"
| "py_getitem (PFloat r) k = Inl TypeError"
| "py_getitem (PStr s) k = Inl TypeError"
| "py_getitem (PList xs) k = Inl TypeError"

text \<open>
  \<^verbatim>\<open>x[i]\<close> for a literal index \<open>i \<ge> 0\<close>: an element of a list, a character of a str; a
  dict with str keys has no key \<open>i\<close>.
\<close>

fun py_index :: "pyval \<Rightarrow> nat \<Rightarrow> exn + pyval" where
  "py_index (PList xs) i = (if i < length xs then Inr (xs ! i) else Inl IndexError)"
| "py_index (PStr s) i = (if i < length s then Inr (PStr [s ! i]) else Inl IndexError)"
| "py_index (PDict kvs) i = Inl KeyError"
| "py_index PNone i = Inl TypeError"
| "py_index (PBool b) i = Inl TypeError"
| "py_index (PInt n) i = Inl TypeError"
| "py_index (PFloat r) i = Inl TypeError"

fun py_len :: "pyval \<Rightarrow> exn + nat" where
  "py_len (PList xs) = Inr (length xs)"
| "py_len (PStr s) = Inr (length s)"
| "py_len (PDict kvs) = Inr (length (remdups (map fst kvs)))"
| "py_len PNone = Inl TypeError"
| "py_len (PBool b) = Inl TypeError"
| "py_len (PInt i) = Inl TypeError"
| "py_len (PFloat r) = Inl TypeError"

text \<open>\<^verbatim>\<open>s.split(d)\<close> for a one-character separator: every occurrence splits.\<close>

fun split_on :: "char \<Rightarrow> string \<Rightarrow> string list" where
  "split_on d [] = [[]]"
| "split_on d (c # cs) =
     (if c = d then [] # split_on d cs
      else (case split_on d cs of [] \<Rightarrow> [[c]] | w # ws \<Rightarrow> (c # w) # ws))"

fun py_split :: "pyval \<Rightarrow> char \<Rightarrow> exn + pyval" where
  "py_split (PStr s) d = Inr (PList (map PStr (split_on d s)))"
| "py_split PNone d = Inl AttributeError"
| "py_split (PBool b) d = Inl AttributeError"
| "py_split (PInt i) d = Inl AttributeError"
| "py_split (PFloat r) d = Inl AttributeError"
| "py_split (PList xs) d = Inl AttributeError"
| "py_split (PDict kvs) d = Inl AttributeError"

text \<open>Decimal notation, for the numbers that f-strings format.\<close>

definition digit :: "nat \<Rightarrow> char" where
  "digit n = ''0123456789'' ! n"

fun str_nat :: "nat \<Rightarrow> string" where
  "str_nat n = (if n < 10 then [digit n] else str_nat (n div 10) @ [digit (n mod 10)])"

definition str_int :: "int \<Rightarrow> string" where
  "str_int i = (if i < 0 then CHR ''-'' # str_nat (nat (- i)) else str_nat (nat i))"

section \<open>The outside world: record store, face service, standard output\<close>

text \<open>
  The record store is reached with \<^verbatim>\<open>requests\<close>, the face service with the
  \<^verbatim>\<open>boto3\<close> client \<^verbatim>\<open>rekognition\<close>. Neither is code of the service, so both are
  parameters: a reply is a function of the calls issued so far and of the call. Every call
  is appended to the trace \<open>calls\<close>, every \<^verbatim>\<open>print\<close> to \<open>stdout\<close>. A face-service call
  either returns or raises \<^verbatim>\<open>ClientError\<close> (\<open>Inl\<close> of its message); the transport is
  taken to deliver a reply.
\<close>

record request =
  http_method :: string
  url :: string
  headers :: "(string \<times> string) list"
  json_body :: "pyval option"
  params :: "pyval option"

record response =
  status_code :: int
  resp_text :: string
  json :: "pyval option"

record face_match =
  FaceId :: string
  Similarity :: rat
  ExternalImageId :: "string option"

datatype call =
    Http request
  | ListCollections
  | CreateCollection string
  | IndexFaces string bytes pyval "string list"
  | SearchFacesByImage string bytes int int

record env =
  supabase_url :: string
  supabase_key :: string
  collection_id :: string
  send :: "call list \<Rightarrow> request \<Rightarrow> response"
  rek_list_collections :: "call list \<Rightarrow> call \<Rightarrow> string + string list"
  rek_create_collection :: "call list \<Rightarrow> call \<Rightarrow> string + string"
  rek_index_faces :: "call list \<Rightarrow> call \<Rightarrow> string + string list"
  rek_search_faces_by_image :: "call list \<Rightarrow> call \<Rightarrow> string + face_match list"
  b64 :: "string \<Rightarrow> bytes option"
  repr_other :: "pyval \<Rightarrow> string"

record world =
  calls :: "call list"
  stdout :: "string list"

type_synonym 'a prog = "world \<Rightarrow> (exn + 'a) \<times> world"

definition ret :: "'a \<Rightarrow> 'a prog" where
  "ret v s = (Inr v, s)"

definition lift :: "exn + 'a \<Rightarrow> 'a prog" where
  "lift r s = (r, s)"

definition andthen :: "'a prog \<Rightarrow> ('a \<Rightarrow> 'b prog) \<Rightarrow> 'b prog" where
  "andthen m f s = (case m s of (Inl e, s') \<Rightarrow> (Inl e, s') | (Inr v, s') \<Rightarrow> f v s')"

text \<open>
  \<^verbatim>\<open>str(x)\<close>, as an f-string formats \<open>x\<close>. The notation of a float, a list or a dict is
  the parameter \<open>repr_other\<close>.
\<close>

definition py_str :: "env \<Rightarrow> pyval \<Rightarrow> string" where
  "py_str env v =
     (case v of
        PStr s \<Rightarrow> s
      | PNone \<Rightarrow> ''None''
      | PBool b \<Rightarrow> (if b then ''True'' else ''False'')
      | PInt i \<Rightarrow> str_int i
      | _ \<Rightarrow> repr_other env v)"

text \<open>
  \<^verbatim>\<open>base64.b64decode(x)\<close>: \<^verbatim>\<open>binascii.Error\<close> on a str that does not decode (the
  parameter \<open>b64\<close> says which), \<^verbatim>\<open>TypeError\<close> on anything that is not a str.
\<close>

definition b64decode :: "env \<Rightarrow> pyval \<Rightarrow> exn + bytes" where
  "b64decode env v =
     (case v of
        PStr s \<Rightarrow> (case b64 env s of Some bs \<Rightarrow> Inr bs | None \<Rightarrow> Inl BinasciiError)
      | _ \<Rightarrow> Inl TypeError)"

section \<open>Record store client\<close>

definition store_headers :: "env \<Rightarrow> (string \<times> string) list" where
  "store_headers env =
     [(''apikey'', supabase_key env),
      (''Authorization'', ''Bearer '' @ supabase_key env),
      (''Content-Type'', ''application/json''),
      (''Prefer'', ''return=representation'')]"

text \<open>
  \<^verbatim>\<open>supabase_request(method, endpoint, data=None, params=None)\<close>. GET and DELETE send
  \<open>params\<close>, POST and PUT send \<open>data\<close> as the JSON body; with any other method the
  name \<^verbatim>\<open>response\<close> is unbound at the status test.
\<close>

definition supabase_request ::
  "env \<Rightarrow> string \<Rightarrow> string \<Rightarrow> pyval option \<Rightarrow> pyval option \<Rightarrow> pyval prog" where
  "supabase_request env meth endpoint data ps s =
     (let u = supabase_url env @ endpoint;
          hs = store_headers env;
          rq = (if meth = ''GET'' then
                  Some \<lparr>http_method = ''GET'', url = u, headers = hs, json_body = None, params = ps\<rparr>
                else if meth = ''POST'' then
                  Some \<lparr>http_method = ''POST'', url = u, headers = hs, json_body = data, params = None\<rparr>
                else if meth = ''PUT'' then
                  Some \<lparr>http_method = ''PUT'', url = u, headers = hs, json_body = data, params = None\<rparr>
                else if meth = ''DELETE'' then
                  Some \<lparr>http_method = ''DELETE'', url = u, headers = hs, json_body = None, params = ps\<rparr>
                else None)
      in case rq of
           None \<Rightarrow> (Inl UnboundLocalError, s)
         | Some r \<Rightarrow>
             (let resp = send env (calls s) r;
                  s1 = s\<lparr>calls := calls s @ [Http r]\<rparr>
              in if status_code resp \<ge> 400 then
                   (Inr PNone,
                    s1\<lparr>stdout := stdout s1 @ [''Error: '' @ str_int (status_code resp), resp_text resp]\<rparr>)
                 else (case json resp of
                         Some v \<Rightarrow> (Inr v, s1)
                       | None \<Rightarrow> (Inr (PStr (resp_text resp)), s1))))"

definition get_students :: "env \<Rightarrow> pyval prog" where
  "get_students env = supabase_request env ''GET'' ''/rest/v1/students?select=*'' None None"

definition get_student_by_id :: "env \<Rightarrow> pyval \<Rightarrow> pyval prog" where
  "get_student_by_id env student_id =
     supabase_request env ''GET''
       (''/rest/v1/students?id=eq.'' @ py_str env student_id @ ''&select=*'') None None"

definition get_student_by_roll_number :: "env \<Rightarrow> pyval \<Rightarrow> pyval prog" where
  "get_student_by_roll_number env roll_number =
     supabase_request env ''GET''
       (''/rest/v1/students?roll_number=eq.'' @ py_str env roll_number @ ''&select=*'') None None"

definition create_student ::
  "env \<Rightarrow> pyval \<Rightarrow> pyval \<Rightarrow> pyval \<Rightarrow> pyval \<Rightarrow> pyval \<Rightarrow> pyval prog" where
  "create_student env name branch year roll_number email =
     supabase_request env ''POST'' ''/rest/v1/students''
       (Some (PDict [(''name'', name), (''branch'', branch), (''year'', year),
                     (''roll_number'', roll_number), (''email'', email)])) None"

definition record_attendance :: "env \<Rightarrow> pyval \<Rightarrow> pyval \<Rightarrow> pyval prog" where
  "record_attendance env student_id confidence =
     supabase_request env ''POST'' ''/rest/v1/attendance''
       (Some (PDict [(''student_id'', student_id), (''confidence'', confidence)])) None"

definition get_attendance_records :: "env \<Rightarrow> pyval \<Rightarrow> pyval prog" where
  "get_attendance_records env limit =
     supabase_request env ''GET''
       (''/rest/v1/attendance_with_student?select=*&limit='' @ py_str env limit) None None"

section \<open>Face service client\<close>

text \<open>
  Of a reply of the face service the client reads: the \<^verbatim>\<open>CollectionIds\<close> of
  \<^verbatim>\<open>list_collections\<close>, the \<^verbatim>\<open>CollectionArn\<close> of \<^verbatim>\<open>create_collection\<close>, the
  \<^verbatim>\<open>FaceId\<close> of each of the \<^verbatim>\<open>FaceRecords\<close> of \<^verbatim>\<open>index_faces\<close>, and of each of the
  \<^verbatim>\<open>FaceMatches\<close> of \<^verbatim>\<open>search_faces_by_image\<close> its \<^verbatim>\<open>FaceId\<close>, \<^verbatim>\<open>Similarity\<close>
  and, when present, \<^verbatim>\<open>ExternalImageId\<close>. The replies carry exactly these.
\<close>

definition quoted :: "string \<Rightarrow> string" where
  "quoted s = CHR 0x27 # s @ [CHR 0x27]"

definition error_result :: "string \<Rightarrow> pyval" where
  "error_result msg = PDict [(''status'', PStr ''error''), (''message'', PStr msg)]"

definition success_message :: "string \<Rightarrow> pyval" where
  "success_message msg = PDict [(''status'', PStr ''success''), (''message'', PStr msg)]"

definition create_collection :: "env \<Rightarrow> string \<Rightarrow> pyval prog" where
  "create_collection env cid s =
     (let s1 = s\<lparr>calls := calls s @ [ListCollections]\<rparr>
      in case rek_list_collections env (calls s) ListCollections of
           Inl e \<Rightarrow>
             (Inr (error_result e),
              s1\<lparr>stdout := stdout s1 @ [''Error creating collection: '' @ e]\<rparr>)
         | Inr ids \<Rightarrow>
             if cid \<in> set ids then
               (Inr (success_message (''Collection '' @ quoted cid @ '' already exists.'')),
                s1\<lparr>stdout := stdout s1 @ [''Collection '' @ quoted cid @ '' already exists.'']\<rparr>)
             else
               (let s2 = s1\<lparr>calls := calls s1 @ [CreateCollection cid]\<rparr>
                in case rek_create_collection env (calls s1) (CreateCollection cid) of
                     Inl e \<Rightarrow>
                       (Inr (error_result e),
                        s2\<lparr>stdout := stdout s2 @ [''Error creating collection: '' @ e]\<rparr>)
                   | Inr arn \<Rightarrow>
                       (Inr (success_message (''Collection '' @ quoted cid @ '' created.'')),
                        s2\<lparr>stdout := stdout s2 @
                               [''Collection '' @ quoted cid @ '' created. ARN: '' @ arn]\<rparr>)))"

definition index_faces_from_base64 :: "env \<Rightarrow> string \<Rightarrow> pyval \<Rightarrow> pyval \<Rightarrow> pyval prog" where
  "index_faces_from_base64 env cid image_base64 external_id s =
     (case b64decode env image_base64 of
        Inl e \<Rightarrow> (Inl e, s)
      | Inr image_bytes \<Rightarrow>
          (let c = IndexFaces cid image_bytes
                     (if truthy external_id then external_id else PStr ''unknown'') [''ALL''];
               s1 = s\<lparr>calls := calls s @ [c]\<rparr>
           in case rek_index_faces env (calls s) c of
                Inl e \<Rightarrow>
                  (Inr (error_result e),
                   s1\<lparr>stdout := stdout s1 @ [''Error indexing face: '' @ e]\<rparr>)
              | Inr face_records \<Rightarrow>
                  if face_records \<noteq> [] then
                    (Inr (PDict [(''status'', PStr ''success''),
                                 (''face_ids'', PList (map PStr face_records)),
                                 (''count'', PInt (int (length face_records)))]),
                     s1\<lparr>stdout := stdout s1 @
                            (''Added '' @ str_nat (length face_records) @
                             '' face(s) to collection '' @ quoted cid)
                            # map (\<lambda>face_id. ''Face ID: '' @ face_id) face_records\<rparr>)
                  else
                    (Inr (error_result ''No faces detected in the image.''),
                     s1\<lparr>stdout := stdout s1 @ [''No faces detected in the image.'']\<rparr>)))"

text \<open>\<^verbatim>\<open>match['Face'].get('ExternalImageId', 'unknown')\<close>\<close>

definition external_id_of :: "face_match \<Rightarrow> string" where
  "external_id_of m = (case ExternalImageId m of Some x \<Rightarrow> x | None \<Rightarrow> ''unknown'')"

definition match_dict :: "face_match \<Rightarrow> pyval" where
  "match_dict m =
     PDict [(''face_id'', PStr (FaceId m)),
            (''similarity'', PFloat (Similarity m)),
            (''external_id'', PStr (external_id_of m))]"

definition search_faces_from_base64 :: "env \<Rightarrow> string \<Rightarrow> pyval \<Rightarrow> int \<Rightarrow> pyval prog" where
  "search_faces_from_base64 env cid image_base64 threshold s =
     (case b64decode env image_base64 of
        Inl e \<Rightarrow> (Inl e, s)
      | Inr image_bytes \<Rightarrow>
          (let c = SearchFacesByImage cid image_bytes threshold 5;
               s1 = s\<lparr>calls := calls s @ [c]\<rparr>
           in case rek_search_faces_by_image env (calls s) c of
                Inl e \<Rightarrow>
                  if contains ''InvalidParameterException'' e \<and> contains ''No face detected'' e
                  then
                    (Inr (error_result ''No faces detected in the input image.''),
                     s1\<lparr>stdout := stdout s1 @ [''No faces detected in the input image.'']\<rparr>)
                  else
                    (Inr (error_result e),
                     s1\<lparr>stdout := stdout s1 @ [''Error searching for faces: '' @ e]\<rparr>)
              | Inr face_matches \<Rightarrow>
                  if face_matches \<noteq> [] then
                    (Inr (PDict [(''status'', PStr ''success''),
                                 (''matches'', PList (map match_dict face_matches))]),
                     s1\<lparr>stdout := stdout s1 @
                            [''Found '' @ str_nat (length face_matches) @ '' match(es)'']\<rparr>)
                  else
                    (Inr (error_result ''No matching faces found in the collection.''),
                     s1\<lparr>stdout := stdout s1 @
                            [''No matching faces found in the collection.'']\<rparr>)))"

section \<open>HTTP endpoints\<close>

text \<open>
  An endpoint takes the parsed JSON body of the request (\<^verbatim>\<open>request.json\<close>) and
  returns the value handed to \<^verbatim>\<open>jsonify\<close> with the status code, 200 when the source
  gives none. An exception that leaves the endpoint is \<open>Inl\<close>.
\<close>

definition required_fields :: "string list" where
  "required_fields = [''name'', ''branch'', ''year'', ''roll_number'', ''email'']"

text \<open>The loop over \<^verbatim>\<open>required_fields\<close>: the first field that is not in the body.\<close>

fun missing_field :: "string list \<Rightarrow> pyval \<Rightarrow> exn + string option" where
  "missing_field [] data = Inr None"
| "missing_field (field # rest) data =
     (case py_in field data of
        Inl e \<Rightarrow> Inl e
      | Inr present \<Rightarrow> if present then missing_field rest data else Inr (Some field))"

definition api_get_students :: "env \<Rightarrow> (pyval \<times> int) prog" where
  "api_get_students env = andthen (get_students env) (\<lambda>students. ret (students, 200))"

definition api_create_student :: "env \<Rightarrow> pyval \<Rightarrow> (pyval \<times> int) prog" where
  "api_create_student env data =
     andthen (lift (missing_field required_fields data)) (\<lambda>missing.
       case missing of
         Some field \<Rightarrow> ret (error_result (''Missing required field: '' @ field), 400)
       | None \<Rightarrow>
           andthen (lift (py_getitem data ''name'')) (\<lambda>name.
           andthen (lift (py_getitem data ''branch'')) (\<lambda>branch.
           andthen (lift (py_getitem data ''year'')) (\<lambda>year.
           andthen (lift (py_getitem data ''roll_number'')) (\<lambda>roll_number.
           andthen (lift (py_getitem data ''email'')) (\<lambda>email.
           andthen (create_student env name branch year roll_number email) (\<lambda>result.
             if truthy result then
               ret (PDict [(''status'', PStr ''success''), (''data'', result)], 200)
             else ret (error_result ''Failed to create student'', 500))))))))"

text \<open>
  The expression \<^verbatim>\<open>x.split(',')[1] if ',' in x else x\<close> that both face endpoints apply
  to \<^verbatim>\<open>data['image']\<close>.
\<close>

definition strip_data_uri :: "pyval \<Rightarrow> exn + pyval" where
  "strip_data_uri img =
     (case py_in '','' img of
        Inl e \<Rightarrow> Inl e
      | Inr has_comma \<Rightarrow>
          if has_comma then
            (case py_split img CHR '','' of Inl e \<Rightarrow> Inl e | Inr parts \<Rightarrow> py_index parts 1)
          else Inr img)"

definition image_payload :: "pyval \<Rightarrow> exn + pyval" where
  "image_payload data =
     (case py_getitem data ''image'' of Inl e \<Rightarrow> Inl e | Inr img \<Rightarrow> strip_data_uri img)"

definition api_register_face :: "env \<Rightarrow> pyval \<Rightarrow> (pyval \<times> int) prog" where
  "api_register_face env data =
     andthen (lift (py_in ''image'' data)) (\<lambda>has_image.
     andthen (if \<not> has_image then ret True
              else andthen (lift (py_in ''roll_number'' data)) (\<lambda>has_roll. ret (\<not> has_roll)))
       (\<lambda>missing.
     if missing then ret (error_result ''Missing image or roll_number'', 400)
     else
       andthen (lift (py_getitem data ''roll_number'')) (\<lambda>roll_number.
       andthen (get_student_by_roll_number env roll_number) (\<lambda>students.
       andthen (if \<not> truthy students then ret True
                else andthen (lift (py_len students)) (\<lambda>n. ret (n = 0)))
         (\<lambda>not_found.
       if not_found then ret (error_result ''Student not found'', 404)
       else
         andthen (lift (py_index students 0)) (\<lambda>student.
         andthen (create_collection env (collection_id env)) (\<lambda>_.
         andthen (lift (image_payload data)) (\<lambda>payload.
         andthen (lift (py_getitem student ''id'')) (\<lambda>student_id.
         andthen (index_faces_from_base64 env (collection_id env) payload student_id) (\<lambda>result.
           ret (result, 200)))))))))))"

definition api_recognize_face :: "env \<Rightarrow> pyval \<Rightarrow> (pyval \<times> int) prog" where
  "api_recognize_face env data =
     andthen (lift (py_in ''image'' data)) (\<lambda>has_image.
     if \<not> has_image then ret (error_result ''Missing image'', 400)
     else
       andthen (lift (image_payload data)) (\<lambda>payload.
       andthen (search_faces_from_base64 env (collection_id env) payload 80) (\<lambda>result.
       andthen (lift (py_getitem result ''status'')) (\<lambda>status.
       andthen (if status = PStr ''success''
                then andthen (lift (py_getitem result ''matches'')) (\<lambda>ms. ret (truthy ms))
                else ret False)
         (\<lambda>matched.
       if matched then
         andthen (lift (py_getitem result ''matches'')) (\<lambda>ms.
         andthen (lift (py_index ms 0)) (\<lambda>match.
         andthen (lift (py_getitem match ''external_id'')) (\<lambda>student_id.
         andthen (get_student_by_id env student_id) (\<lambda>students.
         andthen (if truthy students
                  then andthen (lift (py_len students)) (\<lambda>n. ret (n > 0))
                  else ret False)
           (\<lambda>found.
         if found then
           andthen (lift (py_index students 0)) (\<lambda>student.
           andthen (lift (py_getitem match ''similarity'')) (\<lambda>similarity.
           andthen (record_attendance env student_id similarity) (\<lambda>_.
             ret (PDict [(''status'', PStr ''success''), (''match'', match),
                         (''student'', student)], 200))))
         else ret (result, 200))))))
       else ret (result, 200))))))"

text \<open>
  \<^verbatim>\<open>request.args.get('limit', 50)\<close>: the query argument, a str, or the int 50.
\<close>

definition api_get_attendance :: "env \<Rightarrow> string option \<Rightarrow> (pyval \<times> int) prog" where
  "api_get_attendance env limit_arg =
     andthen (get_attendance_records env
                (case limit_arg of Some l \<Rightarrow> PStr l | None \<Rightarrow> PInt 50))
       (\<lambda>attendance. ret (attendance, 200))"

section \<open>Vocabulary of the statements\<close>

text \<open>The calls that a run from \<open>s\<close> to \<open>s'\<close> has issued.\<close>

definition new_calls :: "world \<Rightarrow> world \<Rightarrow> call list" where
  "new_calls s s' = drop (length (calls s)) (calls s')"

text \<open>
  The JSON bodies of the attendance writes among some calls: the POST requests to
  \<^verbatim>\<open>/rest/v1/attendance\<close>, which only \<open>record_attendance\<close> issues. The store is not
  part of the program, so that the program creates an attendance record means that it
  issues this request.
\<close>

fun attendance_writes :: "env \<Rightarrow> call list \<Rightarrow> pyval option list" where
  "attendance_writes env [] = []"
| "attendance_writes env (Http r # cs) =
     (if http_method r = ''POST'' \<and> url r = supabase_url env @ ''/rest/v1/attendance''
      then json_body r # attendance_writes env cs
      else attendance_writes env cs)"
| "attendance_writes env (ListCollections # cs) = attendance_writes env cs"
| "attendance_writes env (CreateCollection cid # cs) = attendance_writes env cs"
| "attendance_writes env (IndexFaces cid bs ext attrs # cs) = attendance_writes env cs"
| "attendance_writes env (SearchFacesByImage cid bs t n # cs) = attendance_writes env cs"

text \<open>The face-enrollment operation reaches the face service as an \<open>IndexFaces\<close> call.\<close>

fun is_index_faces :: "call \<Rightarrow> bool" where
  "is_index_faces (IndexFaces cid bs ext attrs) = True"
| "is_index_faces (Http r) = False"
| "is_index_faces ListCollections = False"
| "is_index_faces (CreateCollection cid) = False"
| "is_index_faces (SearchFacesByImage cid bs t n) = False"

text \<open>The requests that \<open>supabase_request\<close> sends for GET and for POST.\<close>

definition get_request :: "env \<Rightarrow> string \<Rightarrow> request" where
  "get_request env endpoint =
     \<lparr>http_method = ''GET'', url = supabase_url env @ endpoint, headers = store_headers env,
      json_body = None, params = None\<rparr>"

definition post_request :: "env \<Rightarrow> string \<Rightarrow> pyval \<Rightarrow> request" where
  "post_request env endpoint data =
     \<lparr>http_method = ''POST'', url = supabase_url env @ endpoint, headers = store_headers env,
      json_body = Some data, params = None\<rparr>"

text \<open>
  What \<open>supabase_request\<close> makes of a response: the value it returns, the lines it
  prints, the world it leaves. The lemmas \<open>supabase_request_GET\<close> and
  \<open>supabase_request_POST\<close> below derive them from its definition.
\<close>

definition store_reply :: "response \<Rightarrow> pyval" where
  "store_reply resp =
     (if status_code resp \<ge> 400 then PNone
      else (case json resp of Some v \<Rightarrow> v | None \<Rightarrow> PStr (resp_text resp)))"

definition store_log :: "response \<Rightarrow> string list" where
  "store_log resp =
     (if status_code resp \<ge> 400
      then [''Error: '' @ str_int (status_code resp), resp_text resp] else [])"

definition after_request :: "world \<Rightarrow> request \<Rightarrow> response \<Rightarrow> world" where
  "after_request s rq resp =
     s\<lparr>calls := calls s @ [Http rq], stdout := stdout s @ store_log resp\<rparr>"

text \<open>The lookup of the student named by a match, as \<open>get_student_by_id\<close> sends it.\<close>

definition lookup_request :: "env \<Rightarrow> face_match \<Rightarrow> request" where
  "lookup_request env m =
     get_request env (''/rest/v1/students?id=eq.'' @ external_id_of m @ ''&select=*'')"

text \<open>The search that the recognize endpoint issues: threshold 80, at most 5 faces.\<close>

definition search_call :: "env \<Rightarrow> bytes \<Rightarrow> call" where
  "search_call env image_bytes = SearchFacesByImage (collection_id env) image_bytes 80 5"


text \<open>The status code of the response of an endpoint, if it responds.\<close>

definition http_status :: "(exn + pyval \<times> int) \<times> world \<Rightarrow> int option" where
  "http_status run = (case fst run of Inl e \<Rightarrow> None | Inr (body, status) \<Rightarrow> Some status)"

subsection \<open>A concrete service, for the instances\<close>

text \<open>
  A face service that lists the collections created so far and finds one face, enrolled
  for student \<open>S1\<close>, with similarity 93.2; a store that answers every GET with that
  student; variants of the store that hold no student, or fail.
\<close>

fun created :: "call list \<Rightarrow> string list" where
  "created [] = []"
| "created (CreateCollection cid # cs) = cid # created cs"
| "created (Http r # cs) = created cs"
| "created (ListCollections # cs) = created cs"
| "created (IndexFaces cid bs ext attrs # cs) = created cs"
| "created (SearchFacesByImage cid bs t n # cs) = created cs"

definition demo_student :: pyval where
  "demo_student =
     PDict [(''id'', PStr ''S1''), (''name'', PStr ''Ada''), (''roll_number'', PStr ''R7'')]"

definition demo_match :: face_match where
  "demo_match = \<lparr>FaceId = ''face-1'', Similarity = 93.2, ExternalImageId = Some ''S1''\<rparr>"

definition demo_bytes :: bytes where
  "demo_bytes = [CHR 0x00, CHR 0x00, CHR 0x00]"

definition demo_env :: env where
  "demo_env =
     \<lparr>supabase_url = ''https://db.example'',
      supabase_key = ''key'',
      collection_id = ''attendance_collection'',
      send = (\<lambda>h rq. if http_method rq = ''GET''
                      then \<lparr>status_code = 200, resp_text = ''[student]'',
                            json = Some (PList [demo_student])\<rparr>
                      else \<lparr>status_code = 201, resp_text = ''created'', json = None\<rparr>),
      rek_list_collections = (\<lambda>h c. Inr (created h)),
      rek_create_collection = (\<lambda>h c. Inr ''arn:collection''),
      rek_index_faces = (\<lambda>h c. Inr [''face-1'']),
      rek_search_faces_by_image = (\<lambda>h c. Inr [demo_match]),
      b64 = (\<lambda>s. if s = ''AAAA'' then Some demo_bytes else None),
      repr_other = (\<lambda>v. ''?'')\<rparr>"

definition empty_store_env :: env where
  "empty_store_env =
     demo_env\<lparr>send := (\<lambda>h rq. \<lparr>status_code = 200, resp_text = ''[]'', json = Some (PList [])\<rparr>)\<rparr>"

definition failing_store_env :: env where
  "failing_store_env =
     demo_env\<lparr>send := (\<lambda>h rq. \<lparr>status_code = 503, resp_text = ''unavailable'', json = None\<rparr>)\<rparr>"

text \<open>A store that answers every GET with the student and rejects every POST.\<close>

definition post_rejecting_env :: env where
  "post_rejecting_env =
     demo_env\<lparr>send := (\<lambda>h rq. if http_method rq = ''GET''
                       then \<lparr>status_code = 200, resp_text = ''[student]'',
                             json = Some (PList [demo_student])\<rparr>
                       else \<lparr>status_code = 503, resp_text = ''unavailable'', json = None\<rparr>)\<rparr>"

definition demo_world :: world where
  "demo_world = \<lparr>calls = [], stdout = []\<rparr>"

definition prefixed_image :: pyval where
  "prefixed_image = PDict [(''image'', PStr ''data:image/png;base64,AAAA'')]"


definition register_body :: pyval where
  "register_body =
     PDict [(''image'', PStr ''data:image/png;base64,AAAA''), (''roll_number'', PStr ''R404'')]"

text \<open>
  Bodies for the student-creation endpoint: every value null or empty; two fields only.
  The world after a first creation of the collection.
\<close>

definition null_student :: "(string \<times> pyval) list" where
  "null_student =
     [(''name'', PNone), (''branch'', PStr []), (''year'', PNone),
      (''roll_number'', PStr []), (''email'', PNone)]"

definition partial_student :: "(string \<times> pyval) list" where
  "partial_student = [(''name'', PStr ''Ada''), (''email'', PStr ''ada@example.org'')]"

definition created_world :: world where
  "created_world =
     \<lparr>calls = [ListCollections, CreateCollection ''attendance_collection''],
      stdout = [''Collection '' @ quoted ''attendance_collection'' @
                '' created. ARN: arn:collection'']\<rparr>"

section \<open>Lemmas on the clients\<close>

declare str_nat.simps [simp del]

lemmas prog_defs = andthen_def lift_def ret_def

lemma str_int_503: "str_int 503 = ''503''"
  by (simp add: str_int_def str_nat.simps digit_def)

lemma supabase_request_GET:
  "supabase_request env ''GET'' endpoint None None s =
     (Inr (store_reply (send env (calls s) (get_request env endpoint))),
      after_request s (get_request env endpoint) (send env (calls s) (get_request env endpoint)))"
  by (simp add: supabase_request_def get_request_def store_reply_def store_log_def
      after_request_def Let_def split: option.splits)

lemma supabase_request_POST:
  "supabase_request env ''POST'' endpoint (Some data) None s =
     (Inr (store_reply (send env (calls s) (post_request env endpoint data))),
      after_request s (post_request env endpoint data)
        (send env (calls s) (post_request env endpoint data)))"
  by (simp add: supabase_request_def post_request_def store_reply_def store_log_def
      after_request_def Let_def split: option.splits)

lemma calls_after_request [simp]: "calls (after_request s rq resp) = calls s @ [Http rq]"
  by (simp add: after_request_def)

lemma get_student_by_id_str:
  "get_student_by_id env (PStr x) s =
     (Inr (store_reply (send env (calls s)
             (get_request env (''/rest/v1/students?id=eq.'' @ x @ ''&select=*'')))),
      after_request s (get_request env (''/rest/v1/students?id=eq.'' @ x @ ''&select=*''))
        (send env (calls s) (get_request env (''/rest/v1/students?id=eq.'' @ x @ ''&select=*''))))"
  by (simp add: get_student_by_id_def py_str_def supabase_request_GET)

lemma get_student_by_roll_number_eq:
  "get_student_by_roll_number env rn s =
     (Inr (store_reply (send env (calls s)
             (get_request env
                (''/rest/v1/students?roll_number=eq.'' @ py_str env rn @ ''&select=*'')))),
      after_request s
        (get_request env (''/rest/v1/students?roll_number=eq.'' @ py_str env rn @ ''&select=*''))
        (send env (calls s)
           (get_request env
              (''/rest/v1/students?roll_number=eq.'' @ py_str env rn @ ''&select=*''))))"
  by (simp add: get_student_by_roll_number_def supabase_request_GET)

lemma record_attendance_eq:
  "record_attendance env sid conf s =
     (Inr (store_reply (send env (calls s)
             (post_request env ''/rest/v1/attendance''
                (PDict [(''student_id'', sid), (''confidence'', conf)])))),
      after_request s
        (post_request env ''/rest/v1/attendance''
           (PDict [(''student_id'', sid), (''confidence'', conf)]))
        (send env (calls s)
           (post_request env ''/rest/v1/attendance''
              (PDict [(''student_id'', sid), (''confidence'', conf)]))))"
  by (simp add: record_attendance_def supabase_request_POST)

lemma search_found:
  assumes "b64decode env payload = Inr image_bytes"
    and "rek_search_faces_by_image env (calls s) (search_call env image_bytes) = Inr (m # ms)"
  shows "search_faces_from_base64 env (collection_id env) payload 80 s =
     (Inr (PDict [(''status'', PStr ''success''),
                  (''matches'', PList (map match_dict (m # ms)))]),
      s\<lparr>calls := calls s @ [search_call env image_bytes],
        stdout := stdout s @ [''Found '' @ str_nat (length (m # ms)) @ '' match(es)'']\<rparr>)"
  using assms by (simp add: search_faces_from_base64_def search_call_def Let_def)

lemma prefixed_payload: "image_payload prefixed_image = Inr (PStr ''AAAA'')"
  by (simp add: prefixed_image_def image_payload_def strip_data_uri_def)

lemma demo_decode: "b64decode demo_env (PStr ''AAAA'') = Inr demo_bytes"
  by (simp add: b64decode_def demo_env_def)

lemma demo_search:
  "rek_search_faces_by_image demo_env h (search_call demo_env demo_bytes) = Inr (demo_match # [])"
  by (simp add: demo_env_def)









lemma missing_field_find:
  "missing_field fs (PDict kvs) = Inr (find (\<lambda>f. map_of kvs f = None) fs)"
  by (induction fs) auto

lemma create_student_eq:
  "create_student env n b y r e s =
     (Inr (store_reply (send env (calls s)
             (post_request env ''/rest/v1/students''
                (PDict [(''name'', n), (''branch'', b), (''year'', y),
                        (''roll_number'', r), (''email'', e)])))),
      after_request s
        (post_request env ''/rest/v1/students''
           (PDict [(''name'', n), (''branch'', b), (''year'', y),
                   (''roll_number'', r), (''email'', e)]))
        (send env (calls s)
           (post_request env ''/rest/v1/students''
              (PDict [(''name'', n), (''branch'', b), (''year'', y),
                      (''roll_number'', r), (''email'', e)]))))"
  by (simp add: create_student_def supabase_request_POST)

lemma created_append: "created (xs @ ys) = created xs @ created ys"
  by (induction xs rule: created.induct) auto

lemma create_collection_present:
  assumes "rek_list_collections env (calls s) ListCollections = Inr ids" and "cid \<in> set ids"
  shows "create_collection env cid s =
     (Inr (success_message (''Collection '' @ quoted cid @ '' already exists.'')),
      s\<lparr>calls := calls s @ [ListCollections],
        stdout := stdout s @ [''Collection '' @ quoted cid @ '' already exists.'']\<rparr>)"
  using assms by (simp add: create_collection_def Let_def)

lemma create_collection_success:
  assumes "create_collection env cid s = (Inr r1, s1)"
    and "py_getitem r1 ''status'' = Inr (PStr ''success'')"
  shows "(\<exists>ids. rek_list_collections env (calls s) ListCollections = Inr ids \<and> cid \<in> set ids
            \<and> calls s1 = calls s @ [ListCollections])
       \<or> (\<exists>arn. rek_create_collection env (calls s @ [ListCollections]) (CreateCollection cid) = Inr arn
            \<and> calls s1 = (calls s @ [ListCollections]) @ [CreateCollection cid])"
  using assms
  by (auto simp: create_collection_def Let_def error_result_def success_message_def
      split: sum.splits if_splits)

lemma new_calls_same [simp]: "new_calls s s = []"
  by (simp add: new_calls_def)

lemma recognize_no_image:
  assumes "py_in ''image'' data \<noteq> Inr True"
  shows "snd (api_recognize_face env data s) = s"
proof (cases "py_in ''image'' data")
  case (Inl e)
  then show ?thesis by (simp add: api_recognize_face_def prog_defs)
next
  case (Inr b)
  with assms have "\<not> b" by simp
  with Inr show ?thesis by (simp add: api_recognize_face_def prog_defs)
qed

lemma recognize_no_payload:
  assumes "py_in ''image'' data = Inr True" and "image_payload data = Inl e"
  shows "snd (api_recognize_face env data s) = s"
  using assms by (simp add: api_recognize_face_def prog_defs)

lemma recognize_no_bytes:
  assumes "py_in ''image'' data = Inr True" and "image_payload data = Inr payload"
    and "b64decode env payload = Inl e"
  shows "snd (api_recognize_face env data s) = s"
  using assms by (simp add: api_recognize_face_def prog_defs search_faces_from_base64_def)

lemma recognize_no_match:
  assumes "py_in ''image'' data = Inr True" and "image_payload data = Inr payload"
    and "b64decode env payload = Inr image_bytes"
    and "\<forall>m ms. rek_search_faces_by_image env (calls s) (search_call env image_bytes) \<noteq> Inr (m # ms)"
  shows "calls (snd (api_recognize_face env data s)) = calls s @ [search_call env image_bytes]"
proof (cases "rek_search_faces_by_image env (calls s) (search_call env image_bytes)")
  case (Inl e)
  with assms(1-3) show ?thesis
    by (simp add: api_recognize_face_def prog_defs search_faces_from_base64_def search_call_def
        Let_def error_result_def)
next
  case (Inr found)
  with assms(4) have "found = []" by (cases found) auto
  with Inr assms(1-3) show ?thesis
    by (simp add: api_recognize_face_def prog_defs search_faces_from_base64_def search_call_def
        Let_def error_result_def)
qed

lemma recognize_match:
  assumes "py_in ''image'' data = Inr True" and "image_payload data = Inr payload"
    and "b64decode env payload = Inr image_bytes"
    and "rek_search_faces_by_image env (calls s) (search_call env image_bytes) = Inr (m # ms)"
  shows "calls (snd (api_recognize_face env data s)) =
           calls s @ [search_call env image_bytes, Http (lookup_request env m)]
         \<or> (calls (snd (api_recognize_face env data s)) =
              calls s @ [search_call env image_bytes, Http (lookup_request env m),
                         Http (post_request env ''/rest/v1/attendance''
                                 (PDict [(''student_id'', PStr (external_id_of m)),
                                         (''confidence'', PFloat (Similarity m))]))]
            \<and> truthy (store_reply (send env (calls s @ [search_call env image_bytes])
                                    (lookup_request env m)))
            \<and> (\<exists>n>0. py_len (store_reply (send env (calls s @ [search_call env image_bytes])
                                    (lookup_request env m))) = Inr n))"
  using assms(1,2)
  by (auto simp: api_recognize_face_def prog_defs search_found [OF assms(3,4)]
      get_student_by_id_str record_attendance_eq match_dict_def lookup_request_def
      split: sum.splits)

lemma attendance_writes_search_lookup:
  "attendance_writes env [search_call env bs, Http (lookup_request env m)] = []"
  by (simp add: search_call_def lookup_request_def get_request_def)

lemma attendance_writes_search_lookup_write:
  "attendance_writes env
     [search_call env bs, Http (lookup_request env m),
      Http (post_request env ''/rest/v1/attendance'' body)] = [Some body]"
  by (simp add: search_call_def lookup_request_def get_request_def post_request_def)

lemma recognize_found_calls:
  assumes "py_in ''image'' data = Inr True"
    and "image_payload data = Inr payload"
    and "b64decode env payload = Inr image_bytes"
    and "rek_search_faces_by_image env (calls s) (search_call env image_bytes) = Inr (m # ms)"
    and "store_reply (send env (calls s @ [search_call env image_bytes]) (lookup_request env m))
          = PList (student # others)"
  shows "calls (snd (api_recognize_face env data s)) =
           calls s @ [search_call env image_bytes, Http (lookup_request env m),
                      Http (post_request env ''/rest/v1/attendance''
                              (PDict [(''student_id'', PStr (external_id_of m)),
                                      (''confidence'', PFloat (Similarity m))]))]"
  using assms(1,2,5)
  by (simp add: api_recognize_face_def prog_defs search_found [OF assms(3,4)]
      get_student_by_id_str record_attendance_eq match_dict_def lookup_request_def)

lemma demo_lookup:
  "store_reply (send demo_env h (lookup_request demo_env demo_match)) = PList (demo_student # [])"
  by (simp add: demo_env_def lookup_request_def get_request_def store_reply_def)

lemma demo_calls: "calls demo_world = []"
  by (simp add: demo_world_def)

lemma demo_has_image: "py_in ''image'' prefixed_image = Inr True"
  by (simp add: prefixed_image_def)

lemma demo_recognize_calls:
  "calls (snd (api_recognize_face demo_env prefixed_image demo_world)) =
     [search_call demo_env demo_bytes, Http (lookup_request demo_env demo_match),
      Http (post_request demo_env ''/rest/v1/attendance''
              (PDict [(''student_id'', PStr ''S1''), (''confidence'', PFloat 93.2)]))]"
  using recognize_found_calls [OF demo_has_image prefixed_payload demo_decode demo_search demo_lookup]
  by (simp add: demo_calls external_id_of_def demo_match_def)

lemma store_reply_failed: "400 \<le> status_code resp \<Longrightarrow> store_reply resp = PNone"
  by (simp add: store_reply_def)

lemma recognize_found_response:
  assumes "py_in ''image'' data = Inr True"
    and "image_payload data = Inr payload"
    and "b64decode env payload = Inr image_bytes"
    and "rek_search_faces_by_image env (calls s) (search_call env image_bytes) = Inr (m # ms)"
    and "store_reply (send env (calls s @ [search_call env image_bytes]) (lookup_request env m))
          = PList (student # others)"
  shows "fst (api_recognize_face env data s) =
           Inr (PDict [(''status'', PStr ''success''), (''match'', match_dict m),
                       (''student'', student)], 200)"
  using assms(1,2,5)
  by (simp add: api_recognize_face_def prog_defs search_found [OF assms(3,4)]
      get_student_by_id_str record_attendance_eq match_dict_def lookup_request_def)

lemma recognize_lookup_falsy_response:
  assumes "py_in ''image'' data = Inr True"
    and "image_payload data = Inr payload"
    and "b64decode env payload = Inr image_bytes"
    and "rek_search_faces_by_image env (calls s) (search_call env image_bytes) = Inr (m # ms)"
    and "\<not> truthy (store_reply (send env (calls s @ [search_call env image_bytes])
                                  (lookup_request env m)))"
  shows "fst (api_recognize_face env data s) =
           Inr (PDict [(''status'', PStr ''success''),
                       (''matches'', PList (map match_dict (m # ms)))], 200)"
  using assms(1,2,5)
  by (simp add: api_recognize_face_def prog_defs search_found [OF assms(3,4)]
      get_student_by_id_str match_dict_def lookup_request_def)

section \<open>Record store client: the generic request\<close>

text \<open>
  C7. With one of the four methods, so that a response is received:
  on a status of 400 or more \<open>supabase_request\<close> returns \<^verbatim>\<open>None\<close> and raises nothing,
  after printing the status and the body; on a status below 400 it returns the parsed
  JSON body, or the raw text when the body does not parse. In both cases exactly the one
  request has been issued.
\<close>

theorem supabase_request_contract:
  assumes "meth \<in> {''GET'', ''POST'', ''PUT'', ''DELETE''}"
  shows "let rq = \<lparr>http_method = meth, url = supabase_url env @ endpoint,
                    headers = store_headers env,
                    json_body = (if meth \<in> {''POST'', ''PUT''} then data else None),
                    params = (if meth \<in> {''GET'', ''DELETE''} then ps else None)\<rparr>;
             resp = send env (calls s) rq
         in supabase_request env meth endpoint data ps s =
            (if status_code resp \<ge> 400
             then (Inr PNone,
                   s\<lparr>calls := calls s @ [Http rq],
                     stdout := stdout s @
                       [''Error: '' @ str_int (status_code resp), resp_text resp]\<rparr>)
             else (Inr (case json resp of Some v \<Rightarrow> v | None \<Rightarrow> PStr (resp_text resp)),
                   s\<lparr>calls := calls s @ [Http rq]\<rparr>))"
  using assms by (auto simp: supabase_request_def Let_def split: option.splits)

theorem supabase_request_contract_witness:
  "''GET'' \<in> {''GET'', ''POST'', ''PUT'', ''DELETE''}
   \<and> supabase_request failing_store_env ''GET'' ''/rest/v1/students?select=*'' None None
        demo_world =
       (Inr PNone,
        \<lparr>calls = [Http (get_request failing_store_env ''/rest/v1/students?select=*'')],
         stdout = [''Error: 503'', ''unavailable'']\<rparr>)
   \<and> fst (supabase_request demo_env ''GET'' ''/rest/v1/students?select=*'' None None
             demo_world) =
       Inr (PList [demo_student])
   \<and> fst (supabase_request demo_env ''POST'' ''/rest/v1/attendance'' (Some PNone) None
             demo_world) =
       Inr (PStr ''created'')"
  using
    supabase_request_contract
      [of "''GET''" failing_store_env "''/rest/v1/students?select=*''" None None demo_world]
    supabase_request_contract
      [of "''GET''" demo_env "''/rest/v1/students?select=*''" None None demo_world]
    supabase_request_contract
      [of "''POST''" demo_env "''/rest/v1/attendance''" "Some PNone" None demo_world]
  by (simp add: Let_def get_request_def failing_store_env_def demo_env_def demo_world_def
      str_int_503)

section \<open>Face service client: enrollment\<close>

text \<open>
  C9. An enrollment call with a falsy external identifier (\<^verbatim>\<open>None\<close>, the empty
  str, and any other falsy value) indexes the face under the sentinel \<^verbatim>\<open>unknown\<close>: the
  call issues one \<open>IndexFaces\<close> request, with \<^verbatim>\<open>ExternalImageId\<close> \<^verbatim>\<open>unknown\<close>, or,
  when the image does not decode, no request at all. No face is enrolled under the
  empty str.
\<close>

theorem index_faces_falsy_external_id:
  assumes "\<not> truthy external_id"
  shows "new_calls s (snd (index_faces_from_base64 env cid image_base64 external_id s)) =
           (case b64decode env image_base64 of
              Inl e \<Rightarrow> []
            | Inr image_bytes \<Rightarrow> [IndexFaces cid image_bytes (PStr ''unknown'') [''ALL'']])"
  using assms
  by (simp add: index_faces_from_base64_def new_calls_def Let_def split: sum.splits list.splits)

theorem index_faces_falsy_external_id_witness:
  "\<not> truthy (PStr [])
   \<and> new_calls demo_world
        (snd (index_faces_from_base64 demo_env ''attendance_collection'' (PStr ''AAAA'')
                (PStr []) demo_world)) =
       [IndexFaces ''attendance_collection'' demo_bytes (PStr ''unknown'') [''ALL'']]
   \<and> new_calls demo_world
        (snd (index_faces_from_base64 demo_env ''attendance_collection'' (PStr ''AAAA'')
                PNone demo_world)) =
       [IndexFaces ''attendance_collection'' demo_bytes (PStr ''unknown'') [''ALL'']]"
  using
    index_faces_falsy_external_id
      [of "PStr []" demo_world demo_env "''attendance_collection''" "PStr ''AAAA''"]
    index_faces_falsy_external_id
      [of PNone demo_world demo_env "''attendance_collection''" "PStr ''AAAA''"]
  by (simp add: demo_decode)

section \<open>The register-face endpoint\<close>

text \<open>
  C3. A register-face request with an image and a roll number, for which the lookup by
  roll number yields no student (an empty list; more generally any falsy reply of the
  store client): the endpoint answers 404 \<^verbatim>\<open>Student not found\<close>, the lookup is the only
  call it issues, and the face-enrollment operation is not invoked.
\<close>

theorem register_unknown_roll_number:
  assumes "py_in ''image'' data = Inr True"
    and "py_in ''roll_number'' data = Inr True"
    and "py_getitem data ''roll_number'' = Inr roll_number"
    and "\<not> truthy (store_reply (send env (calls s)
           (get_request env
              (''/rest/v1/students?roll_number=eq.'' @ py_str env roll_number @ ''&select=*''))))"
  shows "fst (api_register_face env data s) = Inr (error_result ''Student not found'', 404)
       \<and> new_calls s (snd (api_register_face env data s)) =
           [Http (get_request env
                    (''/rest/v1/students?roll_number=eq.'' @ py_str env roll_number @
                     ''&select=*''))]
       \<and> filter is_index_faces (new_calls s (snd (api_register_face env data s))) = []"
  using assms
  by (simp add: api_register_face_def prog_defs get_student_by_roll_number_eq new_calls_def)

theorem register_unknown_roll_number_witness:
  "fst (api_register_face empty_store_env register_body demo_world) =
     Inr (PDict [(''status'', PStr ''error''), (''message'', PStr ''Student not found'')], 404)
   \<and> filter is_index_faces
        (new_calls demo_world (snd (api_register_face empty_store_env register_body demo_world)))
       = []"
proof -
  have h1: "py_in ''image'' register_body = Inr True"
    by (simp add: register_body_def)
  have h2: "py_in ''roll_number'' register_body = Inr True"
    by (simp add: register_body_def)
  have h3: "py_getitem register_body ''roll_number'' = Inr (PStr ''R404'')"
    by (simp add: register_body_def)
  have h4: "\<not> truthy (store_reply (send empty_store_env (calls demo_world)
           (get_request empty_store_env
              (''/rest/v1/students?roll_number=eq.'' @ py_str empty_store_env (PStr ''R404'') @
               ''&select=*''))))"
    by (simp add: empty_store_env_def demo_env_def store_reply_def)
  show ?thesis
    using register_unknown_roll_number [OF h1 h2 h3 h4, THEN conjunct1]
      register_unknown_roll_number [OF h1 h2 h3 h4, THEN conjunct2, THEN conjunct2]
    by (simp add: error_result_def)
qed

section \<open>The recognize-face endpoint\<close>

text \<open>
  C1. A recognize-face request whose image decodes, whose search returns at least one
  match, and whose lookup by the top match's external identifier returns a non-empty
  list of students: the endpoint issues the search, the lookup and one attendance write,
  in this order; the write carries the external identifier of the top match as
  \<^verbatim>\<open>student_id\<close> and its similarity as \<^verbatim>\<open>confidence\<close>; the response is 200 and embeds
  the match object and the first student of the list.
\<close>

theorem recognize_success:
  assumes "py_in ''image'' data = Inr True"
    and "image_payload data = Inr payload"
    and "b64decode env payload = Inr image_bytes"
    and "rek_search_faces_by_image env (calls s) (search_call env image_bytes) = Inr (m # ms)"
    and "status_code (send env (calls s @ [search_call env image_bytes])
           (get_request env (''/rest/v1/students?id=eq.'' @ external_id_of m @ ''&select=*'')))
          < 400"
    and "json (send env (calls s @ [search_call env image_bytes])
           (get_request env (''/rest/v1/students?id=eq.'' @ external_id_of m @ ''&select=*'')))
          = Some (PList (student # others))"
  shows "fst (api_recognize_face env data s) =
           Inr (PDict [(''status'', PStr ''success''), (''match'', match_dict m),
                       (''student'', student)], 200)
       \<and> new_calls s (snd (api_recognize_face env data s)) =
           [search_call env image_bytes,
            Http (get_request env
                    (''/rest/v1/students?id=eq.'' @ external_id_of m @ ''&select=*'')),
            Http (post_request env ''/rest/v1/attendance''
                    (PDict [(''student_id'', PStr (external_id_of m)),
                            (''confidence'', PFloat (Similarity m))]))]
       \<and> attendance_writes env (new_calls s (snd (api_recognize_face env data s))) =
           [Some (PDict [(''student_id'', PStr (external_id_of m)),
                         (''confidence'', PFloat (Similarity m))])]"
  using assms(1,2,5,6)
  by (simp add: api_recognize_face_def prog_defs search_found [OF assms(3,4)]
      get_student_by_id_str record_attendance_eq match_dict_def store_reply_def new_calls_def
      post_request_def get_request_def search_call_def)

theorem recognize_success_witness:
  "fst (api_recognize_face demo_env prefixed_image demo_world) =
     Inr (PDict [(''status'', PStr ''success''),
                 (''match'', PDict [(''face_id'', PStr ''face-1''),
                                    (''similarity'', PFloat 93.2),
                                    (''external_id'', PStr ''S1'')]),
                 (''student'', demo_student)], 200)
   \<and> attendance_writes demo_env
        (new_calls demo_world (snd (api_recognize_face demo_env prefixed_image demo_world))) =
       [Some (PDict [(''student_id'', PStr ''S1''), (''confidence'', PFloat 93.2)])]"
proof -
  have h1: "py_in ''image'' prefixed_image = Inr True"
    by (simp add: prefixed_image_def)
  have h5: "status_code (send demo_env (calls demo_world @ [search_call demo_env demo_bytes])
           (get_request demo_env
              (''/rest/v1/students?id=eq.'' @ external_id_of demo_match @ ''&select=*''))) < 400"
    by (simp add: demo_env_def get_request_def)
  have h6: "json (send demo_env (calls demo_world @ [search_call demo_env demo_bytes])
           (get_request demo_env
              (''/rest/v1/students?id=eq.'' @ external_id_of demo_match @ ''&select=*'')))
          = Some (PList (demo_student # []))"
    by (simp add: demo_env_def get_request_def)
  show ?thesis
    using recognize_success [OF h1 prefixed_payload demo_decode demo_search h5 h6, THEN conjunct1]
      recognize_success [OF h1 prefixed_payload demo_decode demo_search h5 h6,
        THEN conjunct2, THEN conjunct2]
    by (simp add: match_dict_def external_id_of_def demo_match_def)
qed

text \<open>
  C2. A recognize-face request whose image decodes and whose search returns at least one
  match, while the lookup by the top match's external identifier yields no student (an
  empty list; more generally any falsy reply of the store client): the endpoint answers
  200 with the very result of the search, and issues the search and the lookup only, so
  no attendance write.
\<close>

theorem recognize_unknown_student:
  assumes "py_in ''image'' data = Inr True"
    and "image_payload data = Inr payload"
    and "b64decode env payload = Inr image_bytes"
    and "rek_search_faces_by_image env (calls s) (search_call env image_bytes) = Inr (m # ms)"
    and "\<not> truthy (store_reply (send env (calls s @ [search_call env image_bytes])
           (get_request env (''/rest/v1/students?id=eq.'' @ external_id_of m @ ''&select=*''))))"
  shows "fst (search_faces_from_base64 env (collection_id env) payload 80 s) =
           Inr (PDict [(''status'', PStr ''success''),
                       (''matches'', PList (map match_dict (m # ms)))])
       \<and> fst (api_recognize_face env data s) =
           Inr (PDict [(''status'', PStr ''success''),
                       (''matches'', PList (map match_dict (m # ms)))], 200)
       \<and> new_calls s (snd (api_recognize_face env data s)) =
           [search_call env image_bytes,
            Http (get_request env
                    (''/rest/v1/students?id=eq.'' @ external_id_of m @ ''&select=*''))]
       \<and> attendance_writes env (new_calls s (snd (api_recognize_face env data s))) = []"
  using assms(1,2,5)
  by (simp add: api_recognize_face_def prog_defs search_found [OF assms(3,4)]
      get_student_by_id_str match_dict_def new_calls_def get_request_def search_call_def)

theorem recognize_unknown_student_witness:
  "fst (api_recognize_face empty_store_env prefixed_image demo_world) =
     Inr (PDict [(''status'', PStr ''success''),
                 (''matches'', PList [PDict [(''face_id'', PStr ''face-1''),
                                             (''similarity'', PFloat 93.2),
                                             (''external_id'', PStr ''S1'')]])], 200)
   \<and> attendance_writes empty_store_env
        (new_calls demo_world (snd (api_recognize_face empty_store_env prefixed_image demo_world)))
       = []"
proof -
  have h1: "py_in ''image'' prefixed_image = Inr True"
    by (simp add: prefixed_image_def)
  have h3: "b64decode empty_store_env (PStr ''AAAA'') = Inr demo_bytes"
    by (simp add: b64decode_def empty_store_env_def demo_env_def)
  have h4: "rek_search_faces_by_image empty_store_env (calls demo_world)
              (search_call empty_store_env demo_bytes) = Inr (demo_match # [])"
    by (simp add: empty_store_env_def demo_env_def)
  have h5: "\<not> truthy (store_reply (send empty_store_env
              (calls demo_world @ [search_call empty_store_env demo_bytes])
              (get_request empty_store_env
                 (''/rest/v1/students?id=eq.'' @ external_id_of demo_match @ ''&select=*''))))"
    by (simp add: empty_store_env_def demo_env_def store_reply_def)
  show ?thesis
    using recognize_unknown_student [OF h1 prefixed_payload h3 h4 h5, THEN conjunct2, THEN conjunct1]
      recognize_unknown_student [OF h1 prefixed_payload h3 h4 h5,
        THEN conjunct2, THEN conjunct2, THEN conjunct2]
    by (simp add: match_dict_def external_id_of_def demo_match_def)
qed

section \<open>The data-URI prefix of an image\<close>




section \<open>Face service client: the collection\<close>

text \<open>
  C5. When the listing of the face service holds the collection name,
  \<open>create_collection\<close> issues the listing only, no creation request, prints
  \<^verbatim>\<open>Collection '...' already exists.\<close> and returns the dict with \<^verbatim>\<open>status\<close>
  \<^verbatim>\<open>success\<close> and that message. Hence two calls in a row: on a face service that keeps
  listing a collection it has listed, and lists a collection once its creation has
  succeeded, whenever the first call returns success (it found or created the
  collection) the second call is this no-op.
\<close>

theorem create_collection_idempotent:
  "(\<forall>ids. rek_list_collections env (calls s) ListCollections = Inr ids \<and> cid \<in> set ids \<longrightarrow>
      create_collection env cid s =
        (Inr (PDict [(''status'', PStr ''success''),
                     (''message'',
                        PStr (''Collection '' @ [CHR 0x27] @ cid @ [CHR 0x27] @
                              '' already exists.''))]),
         s\<lparr>calls := calls s @ [ListCollections],
           stdout := stdout s @
             [''Collection '' @ [CHR 0x27] @ cid @ [CHR 0x27] @ '' already exists.'']\<rparr>))
   \<and> ((\<forall>h ids. rek_list_collections env h ListCollections = Inr ids \<and> cid \<in> set ids \<longrightarrow>
          (\<exists>ids'. rek_list_collections env (h @ [ListCollections]) ListCollections = Inr ids'
                  \<and> cid \<in> set ids'))
      \<and> (\<forall>h arn. rek_create_collection env h (CreateCollection cid) = Inr arn \<longrightarrow>
          (\<exists>ids'. rek_list_collections env (h @ [CreateCollection cid]) ListCollections = Inr ids'
                  \<and> cid \<in> set ids'))
      \<longrightarrow>
      (\<forall>r1 s1. create_collection env cid s = (Inr r1, s1)
                \<and> py_getitem r1 ''status'' = Inr (PStr ''success'') \<longrightarrow>
         create_collection env cid s1 =
           (Inr (PDict [(''status'', PStr ''success''),
                        (''message'',
                           PStr (''Collection '' @ [CHR 0x27] @ cid @ [CHR 0x27] @
                                 '' already exists.''))]),
            s1\<lparr>calls := calls s1 @ [ListCollections],
               stdout := stdout s1 @
                 [''Collection '' @ [CHR 0x27] @ cid @ [CHR 0x27] @ '' already exists.'']\<rparr>)))"
proof (intro conjI allI impI)
  fix ids
  assume "rek_list_collections env (calls s) ListCollections = Inr ids \<and> cid \<in> set ids"
  then have "rek_list_collections env (calls s) ListCollections = Inr ids" and "cid \<in> set ids"
    by simp_all
  then show "create_collection env cid s =
        (Inr (PDict [(''status'', PStr ''success''),
                     (''message'',
                        PStr (''Collection '' @ [CHR 0x27] @ cid @ [CHR 0x27] @
                              '' already exists.''))]),
         s\<lparr>calls := calls s @ [ListCollections],
           stdout := stdout s @
             [''Collection '' @ [CHR 0x27] @ cid @ [CHR 0x27] @ '' already exists.'']\<rparr>)"
    by (simp add: create_collection_present success_message_def quoted_def)
next
  fix r1 s1
  assume service:
    "(\<forall>h ids. rek_list_collections env h ListCollections = Inr ids \<and> cid \<in> set ids \<longrightarrow>
          (\<exists>ids'. rek_list_collections env (h @ [ListCollections]) ListCollections = Inr ids'
                  \<and> cid \<in> set ids'))
      \<and> (\<forall>h arn. rek_create_collection env h (CreateCollection cid) = Inr arn \<longrightarrow>
          (\<exists>ids'. rek_list_collections env (h @ [CreateCollection cid]) ListCollections = Inr ids'
                  \<and> cid \<in> set ids'))"
  assume first: "create_collection env cid s = (Inr r1, s1)
                \<and> py_getitem r1 ''status'' = Inr (PStr ''success'')"
  have "\<exists>ids'. rek_list_collections env (calls s1) ListCollections = Inr ids' \<and> cid \<in> set ids'"
    using create_collection_success [of env cid s r1 s1] first service by metis
  then obtain ids' where
    "rek_list_collections env (calls s1) ListCollections = Inr ids'" and "cid \<in> set ids'"
    by blast
  then show "create_collection env cid s1 =
           (Inr (PDict [(''status'', PStr ''success''),
                        (''message'',
                           PStr (''Collection '' @ [CHR 0x27] @ cid @ [CHR 0x27] @
                                 '' already exists.''))]),
            s1\<lparr>calls := calls s1 @ [ListCollections],
               stdout := stdout s1 @
                 [''Collection '' @ [CHR 0x27] @ cid @ [CHR 0x27] @ '' already exists.'']\<rparr>)"
    by (simp add: create_collection_present success_message_def quoted_def)
qed

theorem create_collection_idempotent_witness:
  "create_collection demo_env ''attendance_collection'' demo_world =
     (Inr (PDict [(''status'', PStr ''success''),
                  (''message'',
                     PStr (''Collection '' @ [CHR 0x27] @ ''attendance_collection'' @ [CHR 0x27] @
                           '' created.''))]),
      \<lparr>calls = [ListCollections, CreateCollection ''attendance_collection''],
       stdout = [''Collection '' @ [CHR 0x27] @ ''attendance_collection'' @ [CHR 0x27] @
                 '' created. ARN: arn:collection'']\<rparr>)
   \<and> create_collection demo_env ''attendance_collection''
       \<lparr>calls = [ListCollections, CreateCollection ''attendance_collection''],
        stdout = [''Collection '' @ [CHR 0x27] @ ''attendance_collection'' @ [CHR 0x27] @
                  '' created. ARN: arn:collection'']\<rparr> =
     (Inr (PDict [(''status'', PStr ''success''),
                  (''message'',
                     PStr (''Collection '' @ [CHR 0x27] @ ''attendance_collection'' @ [CHR 0x27] @
                           '' already exists.''))]),
      \<lparr>calls = [ListCollections, CreateCollection ''attendance_collection'', ListCollections],
       stdout = [''Collection '' @ [CHR 0x27] @ ''attendance_collection'' @ [CHR 0x27] @
                 '' created. ARN: arn:collection'',
                 ''Collection '' @ [CHR 0x27] @ ''attendance_collection'' @ [CHR 0x27] @
                 '' already exists.'']\<rparr>)"
proof -
  have first: "create_collection demo_env ''attendance_collection'' demo_world =
     (Inr (success_message (''Collection '' @ quoted ''attendance_collection'' @ '' created.'')),
      created_world)"
    by (simp add: create_collection_def demo_env_def demo_world_def created_world_def Let_def)
  have status: "py_getitem
      (success_message (''Collection '' @ quoted ''attendance_collection'' @ '' created.''))
      ''status'' = Inr (PStr ''success'')"
    by (simp add: success_message_def)
  have keep: "\<forall>h ids. rek_list_collections demo_env h ListCollections = Inr ids
        \<and> ''attendance_collection'' \<in> set ids \<longrightarrow>
      (\<exists>ids'. rek_list_collections demo_env (h @ [ListCollections]) ListCollections = Inr ids'
              \<and> ''attendance_collection'' \<in> set ids')"
    by (simp add: demo_env_def created_append)
  have made: "\<forall>h arn. rek_create_collection demo_env h (CreateCollection ''attendance_collection'')
        = Inr arn \<longrightarrow>
      (\<exists>ids'. rek_list_collections demo_env (h @ [CreateCollection ''attendance_collection''])
                 ListCollections = Inr ids'
              \<and> ''attendance_collection'' \<in> set ids')"
    by (simp add: demo_env_def created_append)
  show ?thesis
    using create_collection_idempotent
      [of demo_env demo_world "''attendance_collection''", THEN conjunct2, rule_format,
       OF conjI [OF keep made] conjI [OF first status]]
      first
    by (simp add: created_world_def success_message_def quoted_def)
qed

section \<open>The student-creation endpoint\<close>

text \<open>
  C8. For a body that is a JSON object: when the five keys are present, whatever their
  values, the endpoint does not answer 400: it sends the five values to the store and
  answers 200 or 500 by the truth value of the store client's reply. When a key is
  absent, it answers 400 and names the first absent key in the order name, branch, year,
  roll_number, email, and issues no call.
\<close>

theorem create_student_validation:
  "(map_of kvs ''name'' = Some n \<and> map_of kvs ''branch'' = Some b \<and> map_of kvs ''year'' = Some y
      \<and> map_of kvs ''roll_number'' = Some r \<and> map_of kvs ''email'' = Some e \<longrightarrow>
      (let rq = post_request env ''/rest/v1/students''
                  (PDict [(''name'', n), (''branch'', b), (''year'', y),
                          (''roll_number'', r), (''email'', e)]);
           resp = send env (calls s) rq
       in api_create_student env (PDict kvs) s =
            (Inr (if truthy (store_reply resp)
                  then (PDict [(''status'', PStr ''success''), (''data'', store_reply resp)], 200)
                  else (error_result ''Failed to create student'', 500)),
             after_request s rq resp)))
   \<and> (find (\<lambda>f. map_of kvs f = None) [''name'', ''branch'', ''year'', ''roll_number'', ''email'']
        = Some field \<longrightarrow>
      api_create_student env (PDict kvs) s =
        (Inr (error_result (''Missing required field: '' @ field), 400), s))"
proof (intro conjI impI)
  assume h: "map_of kvs ''name'' = Some n \<and> map_of kvs ''branch'' = Some b
      \<and> map_of kvs ''year'' = Some y
      \<and> map_of kvs ''roll_number'' = Some r \<and> map_of kvs ''email'' = Some e"
  then have "missing_field required_fields (PDict kvs) = Inr None"
    by (simp add: missing_field_find required_fields_def)
  with h show "let rq = post_request env ''/rest/v1/students''
                  (PDict [(''name'', n), (''branch'', b), (''year'', y),
                          (''roll_number'', r), (''email'', e)]);
           resp = send env (calls s) rq
       in api_create_student env (PDict kvs) s =
            (Inr (if truthy (store_reply resp)
                  then (PDict [(''status'', PStr ''success''), (''data'', store_reply resp)], 200)
                  else (error_result ''Failed to create student'', 500)),
             after_request s rq resp)"
    by (simp add: api_create_student_def prog_defs create_student_eq Let_def)
next
  assume "find (\<lambda>f. map_of kvs f = None) [''name'', ''branch'', ''year'', ''roll_number'', ''email'']
        = Some field"
  then have "missing_field required_fields (PDict kvs) = Inr (Some field)"
    by (simp only: missing_field_find required_fields_def)
  then show "api_create_student env (PDict kvs) s =
        (Inr (error_result (''Missing required field: '' @ field), 400), s)"
    by (simp add: api_create_student_def prog_defs)
qed

theorem create_student_validation_witness:
  "fst (api_create_student demo_env (PDict null_student) demo_world) =
     Inr (PDict [(''status'', PStr ''success''), (''data'', PStr ''created'')], 200)
   \<and> new_calls demo_world (snd (api_create_student demo_env (PDict null_student) demo_world)) =
       [Http (post_request demo_env ''/rest/v1/students'' (PDict null_student))]
   \<and> api_create_student demo_env (PDict partial_student) demo_world =
       (Inr (PDict [(''status'', PStr ''error''),
                    (''message'', PStr ''Missing required field: branch'')], 400), demo_world)"
  using
    create_student_validation
      [of null_student PNone "PStr []" PNone "PStr []" PNone demo_env demo_world "''x''",
       THEN conjunct1]
    create_student_validation
      [of partial_student PNone PNone PNone PNone PNone demo_env demo_world "''branch''",
       THEN conjunct2]
  by (simp add: null_student_def partial_student_def Let_def error_result_def new_calls_def
      store_reply_def demo_env_def post_request_def)

section \<open>Failures of the record store\<close>

text \<open>
  C6, as the code has it. Each clause is about the one request of the endpoint that the
  store answers with a status of 400 or more, whatever it answers to the others. Only
  the student-creation endpoint (its five fields present) surfaces this as status 500.
  Register-face answers 404 \<^verbatim>\<open>Student not found\<close> to a failed lookup; the list of
  students and the attendance list answer 200 with a null body; recognize-face answers
  200, with the result of the search when the lookup fails, and with the success payload
  (match and student) when the attendance write fails.
\<close>

theorem store_failure_status:
  "(400 \<le> status_code (send env (calls s) (get_request env ''/rest/v1/students?select=*'')) \<longrightarrow>
      fst (api_get_students env s) = Inr (PNone, 200))
   \<and> (400 \<le> status_code (send env (calls s)
               (get_request env
                  (''/rest/v1/attendance_with_student?select=*&limit='' @
                   py_str env (case limit_arg of Some l \<Rightarrow> PStr l | None \<Rightarrow> PInt 50)))) \<longrightarrow>
      fst (api_get_attendance env limit_arg s) = Inr (PNone, 200))
   \<and> (map_of kvs ''name'' = Some n \<and> map_of kvs ''branch'' = Some b \<and> map_of kvs ''year'' = Some y
        \<and> map_of kvs ''roll_number'' = Some r \<and> map_of kvs ''email'' = Some e
        \<and> 400 \<le> status_code (send env (calls s)
                   (post_request env ''/rest/v1/students''
                      (PDict [(''name'', n), (''branch'', b), (''year'', y),
                              (''roll_number'', r), (''email'', e)]))) \<longrightarrow>
      fst (api_create_student env (PDict kvs) s) =
        Inr (PDict [(''status'', PStr ''error''),
                    (''message'', PStr ''Failed to create student'')], 500))
   \<and> (py_in ''image'' rdata = Inr True \<and> py_in ''roll_number'' rdata = Inr True
        \<and> py_getitem rdata ''roll_number'' = Inr roll_number
        \<and> 400 \<le> status_code (send env (calls s)
                   (get_request env
                      (''/rest/v1/students?roll_number=eq.'' @ py_str env roll_number @
                       ''&select=*''))) \<longrightarrow>
      fst (api_register_face env rdata s) =
        Inr (PDict [(''status'', PStr ''error''), (''message'', PStr ''Student not found'')], 404))
   \<and> (py_in ''image'' data = Inr True \<and> image_payload data = Inr payload
        \<and> b64decode env payload = Inr image_bytes
        \<and> rek_search_faces_by_image env (calls s) (search_call env image_bytes) = Inr (m # ms)
        \<and> 400 \<le> status_code (send env (calls s @ [search_call env image_bytes])
                   (lookup_request env m)) \<longrightarrow>
      fst (api_recognize_face env data s) =
        Inr (PDict [(''status'', PStr ''success''),
                    (''matches'', PList (map match_dict (m # ms)))], 200))
   \<and> (py_in ''image'' data = Inr True \<and> image_payload data = Inr payload
        \<and> b64decode env payload = Inr image_bytes
        \<and> rek_search_faces_by_image env (calls s) (search_call env image_bytes) = Inr (m # ms)
        \<and> store_reply (send env (calls s @ [search_call env image_bytes]) (lookup_request env m))
            = PList (student # others)
        \<and> 400 \<le> status_code (send env
                   (calls s @ [search_call env image_bytes, Http (lookup_request env m)])
                   (post_request env ''/rest/v1/attendance''
                      (PDict [(''student_id'', PStr (external_id_of m)),
                              (''confidence'', PFloat (Similarity m))]))) \<longrightarrow>
      fst (api_recognize_face env data s) =
        Inr (PDict [(''status'', PStr ''success''), (''match'', match_dict m),
                    (''student'', student)], 200))"
proof (intro conjI impI)
  assume "400 \<le> status_code (send env (calls s) (get_request env ''/rest/v1/students?select=*''))"
  then show "fst (api_get_students env s) = Inr (PNone, 200)"
    by (simp add: api_get_students_def get_students_def prog_defs supabase_request_GET
        store_reply_failed)
next
  assume "400 \<le> status_code (send env (calls s)
               (get_request env
                  (''/rest/v1/attendance_with_student?select=*&limit='' @
                   py_str env (case limit_arg of Some l \<Rightarrow> PStr l | None \<Rightarrow> PInt 50))))"
  then show "fst (api_get_attendance env limit_arg s) = Inr (PNone, 200)"
    by (simp add: api_get_attendance_def get_attendance_records_def prog_defs
        supabase_request_GET store_reply_failed)
next
  assume h: "map_of kvs ''name'' = Some n \<and> map_of kvs ''branch'' = Some b
        \<and> map_of kvs ''year'' = Some y
        \<and> map_of kvs ''roll_number'' = Some r \<and> map_of kvs ''email'' = Some e
        \<and> 400 \<le> status_code (send env (calls s)
                   (post_request env ''/rest/v1/students''
                      (PDict [(''name'', n), (''branch'', b), (''year'', y),
                              (''roll_number'', r), (''email'', e)])))"
  then have "missing_field required_fields (PDict kvs) = Inr None"
    by (simp add: missing_field_find required_fields_def)
  with h show "fst (api_create_student env (PDict kvs) s) =
        Inr (PDict [(''status'', PStr ''error''),
                    (''message'', PStr ''Failed to create student'')], 500)"
    by (simp add: api_create_student_def prog_defs create_student_eq store_reply_failed
        error_result_def)
next
  assume "py_in ''image'' rdata = Inr True \<and> py_in ''roll_number'' rdata = Inr True
        \<and> py_getitem rdata ''roll_number'' = Inr roll_number
        \<and> 400 \<le> status_code (send env (calls s)
                   (get_request env
                      (''/rest/v1/students?roll_number=eq.'' @ py_str env roll_number @
                       ''&select=*'')))"
  then show "fst (api_register_face env rdata s) =
        Inr (PDict [(''status'', PStr ''error''), (''message'', PStr ''Student not found'')], 404)"
    by (simp add: api_register_face_def prog_defs get_student_by_roll_number_eq
        store_reply_failed error_result_def)
next
  assume h: "py_in ''image'' data = Inr True \<and> image_payload data = Inr payload
        \<and> b64decode env payload = Inr image_bytes
        \<and> rek_search_faces_by_image env (calls s) (search_call env image_bytes) = Inr (m # ms)
        \<and> 400 \<le> status_code (send env (calls s @ [search_call env image_bytes])
                   (lookup_request env m))"
  then have "\<not> truthy (store_reply (send env (calls s @ [search_call env image_bytes])
                                     (lookup_request env m)))"
    by (simp add: store_reply_failed)
  with h show "fst (api_recognize_face env data s) =
        Inr (PDict [(''status'', PStr ''success''),
                    (''matches'', PList (map match_dict (m # ms)))], 200)"
    using recognize_lookup_falsy_response [of data payload env image_bytes s m ms] by blast
next
  assume "py_in ''image'' data = Inr True \<and> image_payload data = Inr payload
        \<and> b64decode env payload = Inr image_bytes
        \<and> rek_search_faces_by_image env (calls s) (search_call env image_bytes) = Inr (m # ms)
        \<and> store_reply (send env (calls s @ [search_call env image_bytes]) (lookup_request env m))
            = PList (student # others)
        \<and> 400 \<le> status_code (send env
                   (calls s @ [search_call env image_bytes, Http (lookup_request env m)])
                   (post_request env ''/rest/v1/attendance''
                      (PDict [(''student_id'', PStr (external_id_of m)),
                              (''confidence'', PFloat (Similarity m))])))"
  then show "fst (api_recognize_face env data s) =
        Inr (PDict [(''status'', PStr ''success''), (''match'', match_dict m),
                    (''student'', student)], 200)"
    using recognize_found_response [of data payload env image_bytes s m ms student others]
    by blast
qed

theorem store_failure_status_witness:
  "400 \<le> status_code (send post_rejecting_env (calls demo_world)
            (post_request post_rejecting_env ''/rest/v1/students'' (PDict null_student)))
   \<and> fst (api_create_student post_rejecting_env (PDict null_student) demo_world) =
     Inr (PDict [(''status'', PStr ''error''), (''message'', PStr ''Failed to create student'')],
          500)
   \<and> fst (api_get_students failing_store_env demo_world) = Inr (PNone, 200)
   \<and> fst (api_register_face failing_store_env register_body demo_world) =
     Inr (PDict [(''status'', PStr ''error''), (''message'', PStr ''Student not found'')], 404)
   \<and> fst (api_recognize_face failing_store_env prefixed_image demo_world) =
     Inr (PDict [(''status'', PStr ''success''),
                 (''matches'', PList [PDict [(''face_id'', PStr ''face-1''),
                                             (''similarity'', PFloat 93.2),
                                             (''external_id'', PStr ''S1'')]])], 200)
   \<and> fst (api_recognize_face post_rejecting_env prefixed_image demo_world) =
     Inr (PDict [(''status'', PStr ''success''),
                 (''match'', PDict [(''face_id'', PStr ''face-1''),
                                    (''similarity'', PFloat 93.2),
                                    (''external_id'', PStr ''S1'')]),
                 (''student'', demo_student)], 200)"
proof -
  have img: "py_in ''image'' prefixed_image = Inr True"
    by (simp add: prefixed_image_def)
  have post: "400 \<le> status_code (send post_rejecting_env (calls demo_world)
            (post_request post_rejecting_env ''/rest/v1/students'' (PDict null_student)))"
    by (simp add: post_rejecting_env_def post_request_def)
  have fields: "map_of null_student ''name'' = Some PNone \<and> map_of null_student ''branch'' = Some (PStr [])
      \<and> map_of null_student ''year'' = Some PNone \<and> map_of null_student ''roll_number'' = Some (PStr [])
      \<and> map_of null_student ''email'' = Some PNone"
    by (simp add: null_student_def)
  have post': "400 \<le> status_code (send post_rejecting_env (calls demo_world)
            (post_request post_rejecting_env ''/rest/v1/students''
               (PDict [(''name'', PNone), (''branch'', PStr []), (''year'', PNone),
                       (''roll_number'', PStr []), (''email'', PNone)])))"
    by (simp add: post_rejecting_env_def post_request_def)
  have a: "fst (api_create_student post_rejecting_env (PDict null_student) demo_world) =
     Inr (PDict [(''status'', PStr ''error''), (''message'', PStr ''Failed to create student'')],
          500)"
    using store_failure_status
      [of post_rejecting_env demo_world None null_student PNone "PStr []" PNone "PStr []" PNone,
       THEN conjunct2, THEN conjunct2, THEN conjunct1] fields post'
    by blast
  have b: "fst (api_get_students failing_store_env demo_world) = Inr (PNone, 200)"
    using store_failure_status [of failing_store_env demo_world, THEN conjunct1]
    by (simp add: failing_store_env_def)
  have c: "fst (api_register_face failing_store_env register_body demo_world) =
     Inr (PDict [(''status'', PStr ''error''), (''message'', PStr ''Student not found'')], 404)"
    using store_failure_status
      [of failing_store_env demo_world None "[]" PNone PNone PNone PNone PNone register_body
          "PStr ''R404''",
       THEN conjunct2, THEN conjunct2, THEN conjunct2, THEN conjunct1]
    by (simp add: failing_store_env_def register_body_def)
  have dec: "b64decode failing_store_env (PStr ''AAAA'') = Inr demo_bytes"
    by (simp add: b64decode_def failing_store_env_def demo_env_def)
  have srch: "rek_search_faces_by_image failing_store_env (calls demo_world)
                (search_call failing_store_env demo_bytes) = Inr (demo_match # [])"
    by (simp add: failing_store_env_def demo_env_def)
  have lk: "400 \<le> status_code (send failing_store_env
               (calls demo_world @ [search_call failing_store_env demo_bytes])
               (lookup_request failing_store_env demo_match))"
    by (simp add: failing_store_env_def)
  have d: "fst (api_recognize_face failing_store_env prefixed_image demo_world) =
     Inr (PDict [(''status'', PStr ''success''),
                 (''matches'', PList (map match_dict (demo_match # [])))], 200)"
    using store_failure_status
      [of failing_store_env demo_world None "[]" PNone PNone PNone PNone PNone PNone PNone
          prefixed_image "PStr ''AAAA''" demo_bytes demo_match "[]",
       THEN conjunct2, THEN conjunct2, THEN conjunct2, THEN conjunct2, THEN conjunct1]
      img prefixed_payload dec srch lk
    by blast
  have dec2: "b64decode post_rejecting_env (PStr ''AAAA'') = Inr demo_bytes"
    by (simp add: b64decode_def post_rejecting_env_def demo_env_def)
  have srch2: "rek_search_faces_by_image post_rejecting_env (calls demo_world)
                (search_call post_rejecting_env demo_bytes) = Inr (demo_match # [])"
    by (simp add: post_rejecting_env_def demo_env_def)
  have lk2: "store_reply (send post_rejecting_env
               (calls demo_world @ [search_call post_rejecting_env demo_bytes])
               (lookup_request post_rejecting_env demo_match)) = PList (demo_student # [])"
    by (simp add: post_rejecting_env_def lookup_request_def get_request_def store_reply_def)
  have wr: "400 \<le> status_code (send post_rejecting_env
               (calls demo_world @ [search_call post_rejecting_env demo_bytes,
                                    Http (lookup_request post_rejecting_env demo_match)])
               (post_request post_rejecting_env ''/rest/v1/attendance''
                  (PDict [(''student_id'', PStr (external_id_of demo_match)),
                          (''confidence'', PFloat (Similarity demo_match))])))"
    by (simp add: post_rejecting_env_def post_request_def)
  have e: "fst (api_recognize_face post_rejecting_env prefixed_image demo_world) =
     Inr (PDict [(''status'', PStr ''success''), (''match'', match_dict demo_match),
                 (''student'', demo_student)], 200)"
    using store_failure_status
      [of post_rejecting_env demo_world None "[]" PNone PNone PNone PNone PNone PNone PNone
          prefixed_image "PStr ''AAAA''" demo_bytes demo_match "[]" demo_student "[]",
       THEN conjunct2, THEN conjunct2, THEN conjunct2, THEN conjunct2, THEN conjunct2]
      img prefixed_payload dec2 srch2 lk2 wr
    by blast
  show ?thesis
    using post a b c d e
    by (simp add: match_dict_def external_id_of_def demo_match_def)
qed

text \<open>
  The claim as worded fails on register-face: the store answers the lookup with status
  503, the endpoint answers 404.
\<close>

theorem store_failure_counterexample:
  "400 \<le> status_code (send failing_store_env []
             (get_request failing_store_env ''/rest/v1/students?roll_number=eq.R404&select=*''))
   \<and> api_register_face failing_store_env register_body demo_world =
       (Inr (PDict [(''status'', PStr ''error''), (''message'', PStr ''Student not found'')], 404),
        \<lparr>calls = [Http (get_request failing_store_env
                           ''/rest/v1/students?roll_number=eq.R404&select=*'')],
         stdout = [''Error: 503'', ''unavailable'']\<rparr>)
   \<and> http_status (api_register_face failing_store_env register_body demo_world) \<noteq> Some 500"
  by (simp add: api_register_face_def prog_defs get_student_by_roll_number_eq register_body_def
      failing_store_env_def demo_env_def demo_world_def store_reply_def after_request_def
      store_log_def str_int_503 py_str_def get_request_def error_result_def http_status_def)

section \<open>Attendance writes of the recognize-face endpoint\<close>

text \<open>
  C10. Whatever the request and the services, a run of the recognize-face endpoint
  issues at most one attendance write. It issues one only when the body has an image
  whose payload decodes, the search has returned at least one match (so its result has
  status success and a non-empty match list), and the lookup by the top match's external
  identifier has returned a truthy value of positive length; the write then carries that
  identifier and the similarity of the top match. By contraposition no write is issued
  when the image is missing, the search fails or finds nothing, or the student is
  unknown.
\<close>

theorem recognize_attendance_at_most_once:
  "length (attendance_writes env (new_calls s (snd (api_recognize_face env data s)))) \<le> 1
   \<and> (attendance_writes env (new_calls s (snd (api_recognize_face env data s))) \<noteq> [] \<longrightarrow>
        (\<exists>payload image_bytes m ms.
           py_in ''image'' data = Inr True
           \<and> image_payload data = Inr payload
           \<and> b64decode env payload = Inr image_bytes
           \<and> rek_search_faces_by_image env (calls s) (search_call env image_bytes) = Inr (m # ms)
           \<and> truthy (store_reply (send env (calls s @ [search_call env image_bytes])
                                   (lookup_request env m)))
           \<and> (\<exists>n>0. py_len (store_reply (send env (calls s @ [search_call env image_bytes])
                                   (lookup_request env m))) = Inr n)
           \<and> attendance_writes env (new_calls s (snd (api_recognize_face env data s))) =
               [Some (PDict [(''student_id'', PStr (external_id_of m)),
                             (''confidence'', PFloat (Similarity m))])]))"
proof -
  let ?w = "attendance_writes env (new_calls s (snd (api_recognize_face env data s)))"
  let ?goal = "length ?w \<le> 1 \<and> (?w \<noteq> [] \<longrightarrow>
        (\<exists>payload image_bytes m ms.
           py_in ''image'' data = Inr True
           \<and> image_payload data = Inr payload
           \<and> b64decode env payload = Inr image_bytes
           \<and> rek_search_faces_by_image env (calls s) (search_call env image_bytes) = Inr (m # ms)
           \<and> truthy (store_reply (send env (calls s @ [search_call env image_bytes])
                                   (lookup_request env m)))
           \<and> (\<exists>n>0. py_len (store_reply (send env (calls s @ [search_call env image_bytes])
                                   (lookup_request env m))) = Inr n)
           \<and> ?w = [Some (PDict [(''student_id'', PStr (external_id_of m)),
                                 (''confidence'', PFloat (Similarity m))])]))"
  have none: "?goal" if "?w = []"
    using that by simp
  show ?goal
  proof (cases "py_in ''image'' data = Inr True")
    case False
    then have "?w = []" by (simp add: recognize_no_image)
    then show ?thesis by (rule none)
  next
    case has_image: True
    show ?thesis
    proof (cases "image_payload data")
      case (Inl e)
      with has_image have "?w = []" by (simp add: recognize_no_payload)
      then show ?thesis by (rule none)
    next
      case payload: (Inr payload)
      show ?thesis
      proof (cases "b64decode env payload")
        case (Inl e)
        with has_image payload have "?w = []" by (simp add: recognize_no_bytes)
        then show ?thesis by (rule none)
      next
        case bytes: (Inr image_bytes)
        show ?thesis
        proof (cases "\<exists>m ms. rek_search_faces_by_image env (calls s)
                                (search_call env image_bytes) = Inr (m # ms)")
          case False
          then have "calls (snd (api_recognize_face env data s)) =
                       calls s @ [search_call env image_bytes]"
            using recognize_no_match [OF has_image payload bytes] by blast
          then have "?w = []"
            by (simp add: new_calls_def search_call_def)
          then show ?thesis by (rule none)
        next
          case True
          then obtain m ms where found:
            "rek_search_faces_by_image env (calls s) (search_call env image_bytes) = Inr (m # ms)"
            by blast
          from recognize_match [OF has_image payload bytes found]
          show ?thesis
          proof
            assume "calls (snd (api_recognize_face env data s)) =
                      calls s @ [search_call env image_bytes, Http (lookup_request env m)]"
            then have "?w = []"
              by (simp add: new_calls_def attendance_writes_search_lookup)
            then show ?thesis by (rule none)
          next
            assume written:
              "calls (snd (api_recognize_face env data s)) =
                 calls s @ [search_call env image_bytes, Http (lookup_request env m),
                            Http (post_request env ''/rest/v1/attendance''
                                    (PDict [(''student_id'', PStr (external_id_of m)),
                                            (''confidence'', PFloat (Similarity m))]))]
               \<and> truthy (store_reply (send env (calls s @ [search_call env image_bytes])
                                    (lookup_request env m)))
               \<and> (\<exists>n>0. py_len (store_reply (send env (calls s @ [search_call env image_bytes])
                                    (lookup_request env m))) = Inr n)"
            then have w: "?w = [Some (PDict [(''student_id'', PStr (external_id_of m)),
                                             (''confidence'', PFloat (Similarity m))])]"
              by (simp add: new_calls_def attendance_writes_search_lookup_write)
            have "length ?w \<le> 1" using w by simp
            moreover have "\<exists>payload image_bytes m ms.
               py_in ''image'' data = Inr True
               \<and> image_payload data = Inr payload
               \<and> b64decode env payload = Inr image_bytes
               \<and> rek_search_faces_by_image env (calls s) (search_call env image_bytes) = Inr (m # ms)
               \<and> truthy (store_reply (send env (calls s @ [search_call env image_bytes])
                                       (lookup_request env m)))
               \<and> (\<exists>n>0. py_len (store_reply (send env (calls s @ [search_call env image_bytes])
                                       (lookup_request env m))) = Inr n)
               \<and> ?w = [Some (PDict [(''student_id'', PStr (external_id_of m)),
                                     (''confidence'', PFloat (Similarity m))])]"
              using has_image payload bytes found written w by blast
            ultimately show ?thesis by blast
          qed
        qed
      qed
    qed
  qed
qed

theorem recognize_attendance_at_most_once_witness:
  "attendance_writes demo_env
     (new_calls demo_world (snd (api_recognize_face demo_env prefixed_image demo_world))) \<noteq> []
   \<and> length (attendance_writes demo_env
        (new_calls demo_world (snd (api_recognize_face demo_env prefixed_image demo_world)))) \<le> 1
   \<and> (\<exists>payload image_bytes m ms.
         py_in ''image'' prefixed_image = Inr True
         \<and> image_payload prefixed_image = Inr payload
         \<and> b64decode demo_env payload = Inr image_bytes
         \<and> rek_search_faces_by_image demo_env (calls demo_world)
             (search_call demo_env image_bytes) = Inr (m # ms)
         \<and> truthy (store_reply (send demo_env (calls demo_world @ [search_call demo_env image_bytes])
                                 (lookup_request demo_env m))))"
proof -
  have written: "attendance_writes demo_env
     (new_calls demo_world (snd (api_recognize_face demo_env prefixed_image demo_world))) \<noteq> []"
    by (simp add: new_calls_def demo_calls demo_recognize_calls
        attendance_writes_search_lookup_write)
  show ?thesis
    using written
      recognize_attendance_at_most_once [of demo_env demo_world prefixed_image, THEN conjunct1]
      recognize_attendance_at_most_once [of demo_env demo_world prefixed_image, THEN conjunct2,
        rule_format, OF written]
    by blast
qed

end
